theory Spec2Isabelle
  imports Complex_Main "HOL-Library.Word"
begin

section \<open>The car-recognition web form: \<open>app.py\<close>\<close>

text \<open>
  The program is one Flask module: \<open>analyze_image\<close> (a dominant-colour vote over HSV pixel
  counts and a contour filter for number-plate candidates), \<open>allowed_file\<close> (the extension
  check) and the request handler \<open>index\<close>. Python exceptions are values of \<open>error\<close>; a
  function that can raise returns \<open>error + 'a\<close>, the exception on the left.
  \<open>Cv2Error\<close> stands for \<open>cv2.error\<close>.
\<close>

datatype error = ZeroDivisionError | IndexError | Cv2Error

subsection \<open>Strings: \<open>in\<close>, \<open>rsplit\<close>, \<open>lower\<close>\<close>

text \<open>
  A filename is a \<open>string\<close>, one \<open>char\<close> per code point; the model covers the code points
  0 to 255. On these \<open>str.lower\<close> moves \<open>A\<close>..\<open>Z\<close> and the Latin-1 capitals (192..222
  without the multiplication sign 215) up by 32 and leaves every other code point alone.
\<close>

definition lower_char :: "char \<Rightarrow> char" where
  "lower_char c =
     (let n = (of_char c :: nat)
      in if (65 \<le> n \<and> n \<le> 90) \<or> (192 \<le> n \<and> n \<le> 222 \<and> n \<noteq> 215)
         then char_of (n + 32) else c)"

definition lower :: "string \<Rightarrow> string" where
  "lower s = map lower_char s"

text \<open>
  \<open>s.rfind(sep)\<close> for a one-character separator: the index of its last occurrence, if any.
\<close>

fun rfind :: "char \<Rightarrow> string \<Rightarrow> nat option" where
  "rfind sep [] = None"
| "rfind sep (c # cs) =
     (case rfind sep cs of
        Some i \<Rightarrow> Some (Suc i)
      | None \<Rightarrow> if c = sep then Some 0 else None)"

text \<open>
  \<open>s.rsplit(sep, 1)\<close>: the string cut once, at the last separator; the whole string alone
  when there is none.
\<close>

definition rsplit1 :: "char \<Rightarrow> string \<Rightarrow> string list" where
  "rsplit1 sep s =
     (case rfind sep s of
        None \<Rightarrow> [s]
      | Some i \<Rightarrow> [take i s, drop (Suc i) s])"

text \<open>\<open>xs[i]\<close> for an index that is not negative: IndexError past the end.\<close>

definition getitem :: "'a list \<Rightarrow> nat \<Rightarrow> error + 'a" where
  "getitem xs i = (if i < length xs then Inr (xs ! i) else Inl IndexError)"

subsection \<open>\<open>allowed_file\<close>\<close>

definition ALLOWED_EXTENSIONS :: "string set" where
  "ALLOWED_EXTENSIONS = {''png'', ''jpg'', ''jpeg''}"

text \<open>
  \<open>'.' in filename and filename.rsplit('.', 1)[1].lower() in {'png', 'jpg', 'jpeg'}\<close>:
  the right operand is evaluated only when the left one holds.
\<close>

definition allowed_file :: "string \<Rightarrow> error + bool" where
  "allowed_file filename =
     (if CHR ''.'' \<in> set filename
      then (case getitem (rsplit1 CHR ''.'' filename) 1 of
              Inl e \<Rightarrow> Inl e
            | Inr ext \<Rightarrow> Inr (lower ext \<in> ALLOWED_EXTENSIONS))
      else Inr False)"

text \<open>
  The extension check as the specification words it: the text after the last dot,
  lowercased, is one of the three extensions.
\<close>

definition after_last_dot :: "string \<Rightarrow> string" where
  "after_last_dot s = rev (takeWhile (\<lambda>c. c \<noteq> CHR ''.'') (rev s))"

definition extension_accepted :: "string \<Rightarrow> bool" where
  "extension_accepted filename \<longleftrightarrow>
     CHR ''.'' \<in> set filename \<and>
     map lower_char (after_last_dot filename) \<in> {''png'', ''jpg'', ''jpeg''}"

subsection \<open>Images, contours and the OpenCV interface\<close>

text \<open>
  An image is a grid of rows. A colour image holds three 8-bit channels per pixel (B, G, R
  as decoded; H, S, V after conversion), a grey image one. An image without pixels has no
  rows, or rows without columns.

  A contour is the array of its boundary points, each the pixel coordinates \<open>(x, y)\<close> of
  a pixel of the edge map, counted from the top-left pixel \<open>(0, 0)\<close>. \<open>findContours\<close>
  yields no contour without points: a contour is its first point and the others.
\<close>

type_synonym uint8 = "8 word"
type_synonym pixel = "uint8 \<times> uint8 \<times> uint8"
type_synonym color_image = "pixel list list"
type_synonym gray_image = "uint8 list list"
type_synonym point = "nat \<times> nat"

datatype contour = Contour point "point list"

fun points :: "contour \<Rightarrow> point list" where
  "points (Contour p ps) = p # ps"

text \<open>
  The image-processing routines of OpenCV that \<open>app.py\<close> calls are a parameter of the
  model, one field per call as the source makes it: the two colour conversions, the 5x5
  Gaussian blur with sigma 0, Canny with thresholds 200 and 400, \<open>findContours\<close> with
  \<open>RETR_EXTERNAL\<close> and \<open>CHAIN_APPROX_SIMPLE\<close> (the contour list, which is component 0 of
  the pair of contours and hierarchy that the call returns), and \<open>imdecode\<close> with
  \<open>IMREAD_COLOR\<close> (which raises, or yields \<open>None\<close> for bytes that are no image).
  \<open>findContours_leaves\<close> is what \<open>findContours\<close> leaves behind in the image buffer it
  was handed: older OpenCV releases scribble on it, later ones leave it alone.
  The fields say what a call yields on an image with pixels; what the calls do on an
  image without pixels is \<open>cvtColor\<close> below.
\<close>

record cv2 =
  cvtColor_BGR2GRAY :: "color_image \<Rightarrow> gray_image"
  GaussianBlur_5x5 :: "gray_image \<Rightarrow> gray_image"
  cvtColor_BGR2HSV :: "color_image \<Rightarrow> color_image"
  Canny_200_400 :: "gray_image \<Rightarrow> gray_image"
  findContours_external :: "gray_image \<Rightarrow> contour list"
  findContours_leaves :: "gray_image \<Rightarrow> gray_image"
  imdecode_color :: "uint8 list \<Rightarrow> error + color_image option"

text \<open>
  Modelled from the spec: \<open>cv2.inRange\<close> and \<open>cv2.countNonZero\<close> are OpenCV library
  code, not part of the repository. \<open>inRange\<close> marks with 255 each pixel whose three
  channels all lie within the inclusive bounds, with 0 every other pixel;
  \<open>countNonZero\<close> counts the entries of a single-channel image that are not 0.
\<close>

definition in_bounds :: "int \<times> int \<times> int \<Rightarrow> int \<times> int \<times> int \<Rightarrow> pixel \<Rightarrow> bool" where
  "in_bounds lowerb upperb px =
     (case (lowerb, upperb, px) of
        ((l0, l1, l2), (u0, u1, u2), (c0, c1, c2)) \<Rightarrow>
          l0 \<le> uint c0 \<and> uint c0 \<le> u0 \<and>
          l1 \<le> uint c1 \<and> uint c1 \<le> u1 \<and>
          l2 \<le> uint c2 \<and> uint c2 \<le> u2)"

definition inRange :: "color_image \<Rightarrow> int \<times> int \<times> int \<Rightarrow> int \<times> int \<times> int \<Rightarrow> gray_image" where
  "inRange src lowerb upperb =
     map (map (\<lambda>px. if in_bounds lowerb upperb px then 255 else 0)) src"

definition countNonZero :: "gray_image \<Rightarrow> nat" where
  "countNonZero src = length (filter (\<lambda>v. v \<noteq> 0) (concat src))"

text \<open>
  Modelled from the spec: \<open>cv2.cvtColor\<close> is OpenCV library code, not part of the
  repository. The specification requires a non-empty image: on an image without pixels
  the call raises \<open>cv2.error\<close>, on every other image it returns the conversion.
\<close>

definition cvtColor :: "(color_image \<Rightarrow> 'a) \<Rightarrow> color_image \<Rightarrow> error + 'a" where
  "cvtColor conversion src =
     (if concat src = [] then Inl Cv2Error else Inr (conversion src))"

text \<open>
  Modelled from the spec: \<open>cv2.boundingRect\<close> is OpenCV library code, not part of the
  repository. It is the smallest upright rectangle of pixels that encloses the points:
  top-left corner at the least coordinates, width and height counting both end pixels.
\<close>

fun boundingRect :: "contour \<Rightarrow> int \<times> int \<times> int \<times> int" where
  "boundingRect (Contour p ps) =
     (let xmin = fold min (map fst ps) (fst p);
          xmax = fold max (map fst ps) (fst p);
          ymin = fold min (map snd ps) (snd p);
          ymax = fold max (map snd ps) (snd p)
      in (int xmin, int ymin, int xmax - int xmin + 1, int ymax - int ymin + 1))"

text \<open>
  Modelled from the spec: \<open>cv2.contourArea\<close> is OpenCV library code, not part of the
  repository. It is the area the closed polygon through the points encloses, by the
  shoelace formula: half the absolute value of the sum of the cross products of
  consecutive points, the last point preceding the first. The sum is an integer, so the
  area is a multiple of one half; it is kept as an exact rational.
\<close>

fun shoelace :: "point \<Rightarrow> point list \<Rightarrow> int" where
  "shoelace prev [] = 0"
| "shoelace prev (p # ps) =
     (int (fst prev) * int (snd p) - int (snd prev) * int (fst p)) + shoelace p ps"

definition contourArea :: "contour \<Rightarrow> rat" where
  "contourArea cnt = of_int \<bar>shoelace (last (points cnt)) (points cnt)\<bar> / 2"

subsection \<open>\<open>analyze_image\<close>\<close>

text \<open>
  The result dictionary: \<open>'color'\<close> is one of the strings \<open>'Red'\<close>, \<open>'Blue'\<close>, \<open>'Green'\<close>
  or \<open>None\<close>; \<open>'number_plates'\<close> is a list of dictionaries with the keys \<open>'x'\<close>, \<open>'y'\<close>,
  \<open>'w'\<close>, \<open>'h'\<close>.
\<close>

record rect =
  rect_x :: int
  rect_y :: int
  rect_w :: int
  rect_h :: int

record analysis =
  color :: "string option"
  number_plates :: "rect list"

definition red_lower :: "int \<times> int \<times> int" where "red_lower = (170, 100, 100)"
definition red_upper :: "int \<times> int \<times> int" where "red_upper = (180, 255, 255)"
definition blue_lower :: "int \<times> int \<times> int" where "blue_lower = (100, 100, 100)"
definition blue_upper :: "int \<times> int \<times> int" where "blue_upper = (140, 255, 255)"
definition green_lower :: "int \<times> int \<times> int" where "green_lower = (40, 50, 50)"
definition green_upper :: "int \<times> int \<times> int" where "green_upper = (80, 255, 255)"

definition red_count :: "color_image \<Rightarrow> nat" where
  "red_count hsv = countNonZero (inRange hsv red_lower red_upper)"

definition blue_count :: "color_image \<Rightarrow> nat" where
  "blue_count hsv = countNonZero (inRange hsv blue_lower blue_upper)"

definition green_count :: "color_image \<Rightarrow> nat" where
  "green_count hsv = countNonZero (inRange hsv green_lower green_upper)"

text \<open>Lines 43 to 49: the \<open>if\<close>/\<open>elif\<close> chain over the three counts.\<close>

definition dominant_color :: "nat \<Rightarrow> nat \<Rightarrow> nat \<Rightarrow> string option" where
  "dominant_color red blue green =
     (if red > blue \<and> red > green then Some ''Red''
      else if blue > red \<and> blue > green then Some ''Blue''
      else if green > red \<and> green > blue then Some ''Green''
      else None)"

text \<open>
  \<open>float(w) / h\<close>: Python raises ZeroDivisionError when \<open>h\<close> is 0. The quotient is kept
  exact. A float quotient of two integers below \<open>2^52\<close> compares with 2 and with 5 as
  the exact quotient does, since it differs from either bound by at least \<open>1/h\<close>.
\<close>

definition truediv :: "int \<Rightarrow> int \<Rightarrow> error + rat" where
  "truediv a b = (if b = 0 then Inl ZeroDivisionError else Inr (of_int a / of_int b))"

text \<open>Lines 62 and 63 for one contour: the aspect ratio, then the chained comparisons.\<close>

definition plate_test :: "int \<Rightarrow> int \<Rightarrow> rat \<Rightarrow> error + bool" where
  "plate_test w h area =
     (case truediv w h of
        Inl e \<Rightarrow> Inl e
      | Inr aspect_ratio \<Rightarrow>
          Inr (2 < aspect_ratio \<and> aspect_ratio < 5 \<and> 100 < area \<and> area < 5000))"

text \<open>
  Lines 59 to 64: the loop over the contours; \<open>plates\<close> is the list \<open>number_plates\<close>
  built so far. An exception leaves the loop and the function.
\<close>

fun number_plates_loop :: "contour list \<Rightarrow> rect list \<Rightarrow> error + rect list" where
  "number_plates_loop [] plates = Inr plates"
| "number_plates_loop (cnt # cnts) plates =
     (case boundingRect cnt of
        (x, y, w, h) \<Rightarrow>
          (case plate_test w h (contourArea cnt) of
             Inl e \<Rightarrow> Inl e
           | Inr True \<Rightarrow>
               number_plates_loop cnts
                 (plates @ [\<lparr>rect_x = x, rect_y = y, rect_w = w, rect_h = h\<rparr>])
           | Inr False \<Rightarrow> number_plates_loop cnts plates))"

text \<open>
  The contours the loop runs over, for an image with pixels: lines 22, 23, 53 and 56.
\<close>

definition cnts_of :: "cv2 \<Rightarrow> color_image \<Rightarrow> contour list" where
  "cnts_of cv img =
     (let gray = cvtColor_BGR2GRAY cv img;
          blur = GaussianBlur_5x5 cv gray;
          edges = Canny_200_400 cv blur
      in findContours_external cv edges)"

text \<open>
  \<open>analyze_image\<close>, line by line. The two \<open>cvtColor\<close> calls of lines 22 and 27 are the
  calls that raise on an image without pixels; line 22 comes first.
\<close>

definition analyze_image :: "cv2 \<Rightarrow> color_image \<Rightarrow> error + analysis" where
  "analyze_image cv img =
     (case cvtColor (cvtColor_BGR2GRAY cv) img of
        Inl e \<Rightarrow> Inl e
      | Inr gray \<Rightarrow>
          (let blur = GaussianBlur_5x5 cv gray
           in case cvtColor (cvtColor_BGR2HSV cv) img of
                Inl e \<Rightarrow> Inl e
              | Inr hsv \<Rightarrow>
                  (let label = dominant_color (red_count hsv) (blue_count hsv) (green_count hsv);
                       edges = Canny_200_400 cv blur;
                       cnts = findContours_external cv edges
                   in case number_plates_loop cnts [] of
                        Inl e \<Rightarrow> Inl e
                      | Inr plates \<Rightarrow> Inr \<lparr>color = label, number_plates = plates\<rparr>)))"

subsection \<open>\<open>analyze_image\<close> on explicit buffers\<close>

text \<open>
  The same function with its arrays made explicit, to tell which buffers it writes. The
  heap is the list of all arrays alive, an array's address its index; the caller's
  \<open>image\<close> is an address. Every OpenCV call of \<open>analyze_image\<close> is made without a
  destination argument: it reads its source array and returns its result in a new array,
  and raises when the source has the wrong number of channels; \<open>cvtColor\<close> raises on an
  image without pixels as well. \<open>countNonZero\<close> only
  reads. \<open>findContours\<close> is the one call that may write to the array it is handed.
\<close>

datatype ndarray = Mat3 color_image | Mat1 gray_image

type_synonym heap = "ndarray list"

definition new_array :: "ndarray \<Rightarrow> heap \<Rightarrow> (error + nat) \<times> heap" where
  "new_array a hp = (Inr (length hp), hp @ [a])"

definition cvtColor_at :: "(color_image \<Rightarrow> ndarray) \<Rightarrow> nat \<Rightarrow> heap \<Rightarrow> (error + nat) \<times> heap" where
  "cvtColor_at conversion src hp =
     (case hp ! src of
        Mat3 img \<Rightarrow>
          (case cvtColor conversion img of
             Inl e \<Rightarrow> (Inl e, hp)
           | Inr dst \<Rightarrow> new_array dst hp)
      | Mat1 _ \<Rightarrow> (Inl Cv2Error, hp))"

definition from_color :: "(color_image \<Rightarrow> ndarray) \<Rightarrow> nat \<Rightarrow> heap \<Rightarrow> (error + nat) \<times> heap" where
  "from_color f src hp =
     (case hp ! src of
        Mat3 img \<Rightarrow> new_array (f img) hp
      | Mat1 _ \<Rightarrow> (Inl Cv2Error, hp))"

definition from_gray :: "(gray_image \<Rightarrow> ndarray) \<Rightarrow> nat \<Rightarrow> heap \<Rightarrow> (error + nat) \<times> heap" where
  "from_gray f src hp =
     (case hp ! src of
        Mat1 img \<Rightarrow> new_array (f img) hp
      | Mat3 _ \<Rightarrow> (Inl Cv2Error, hp))"

definition countNonZero_at :: "nat \<Rightarrow> heap \<Rightarrow> (error + nat) \<times> heap" where
  "countNonZero_at src hp =
     (case hp ! src of
        Mat1 img \<Rightarrow> (Inr (countNonZero img), hp)
      | Mat3 _ \<Rightarrow> (Inl Cv2Error, hp))"

definition findContours_at :: "cv2 \<Rightarrow> nat \<Rightarrow> heap \<Rightarrow> (error + contour list) \<times> heap" where
  "findContours_at cv src hp =
     (case hp ! src of
        Mat1 img \<Rightarrow>
          (Inr (findContours_external cv img), hp[src := Mat1 (findContours_leaves cv img)])
      | Mat3 _ \<Rightarrow> (Inl Cv2Error, hp))"

text \<open>Sequencing: an exception ends the run, the heap stays as it was left.\<close>

definition and_then ::
  "(heap \<Rightarrow> (error + 'a) \<times> heap) \<Rightarrow> ('a \<Rightarrow> heap \<Rightarrow> (error + 'b) \<times> heap)
     \<Rightarrow> heap \<Rightarrow> (error + 'b) \<times> heap" where
  "and_then m f hp =
     (case m hp of
        (Inl e, hp') \<Rightarrow> (Inl e, hp')
      | (Inr v, hp') \<Rightarrow> f v hp')"

definition analyze_image_heap :: "cv2 \<Rightarrow> nat \<Rightarrow> heap \<Rightarrow> (error + analysis) \<times> heap" where
  "analyze_image_heap cv img =
     and_then (cvtColor_at (\<lambda>src. Mat1 (cvtColor_BGR2GRAY cv src)) img) (\<lambda>gray.
     and_then (from_gray (\<lambda>src. Mat1 (GaussianBlur_5x5 cv src)) gray) (\<lambda>blur.
     and_then (cvtColor_at (\<lambda>src. Mat3 (cvtColor_BGR2HSV cv src)) img) (\<lambda>hsv.
     and_then (from_color (\<lambda>src. Mat1 (inRange src red_lower red_upper)) hsv) (\<lambda>red_mask.
     and_then (countNonZero_at red_mask) (\<lambda>red.
     and_then (from_color (\<lambda>src. Mat1 (inRange src blue_lower blue_upper)) hsv) (\<lambda>blue_mask.
     and_then (countNonZero_at blue_mask) (\<lambda>blue.
     and_then (from_color (\<lambda>src. Mat1 (inRange src green_lower green_upper)) hsv) (\<lambda>green_mask.
     and_then (countNonZero_at green_mask) (\<lambda>green.
     and_then (from_gray (\<lambda>src. Mat1 (Canny_200_400 cv src)) blur) (\<lambda>edges.
     and_then (from_gray Mat1 edges) (\<lambda>edges_copy.
     and_then (findContours_at cv edges_copy) (\<lambda>cnts hp.
       (case number_plates_loop cnts [] of
          Inl e \<Rightarrow> Inl e
        | Inr plates \<Rightarrow>
            Inr \<lparr>color = dominant_color red blue green, number_plates = plates\<rparr>,
        hp)))))))))))))"

subsection \<open>The request handler \<open>index\<close>\<close>

record file_storage =
  filename :: string
  stream :: "uint8 list"

text \<open>
  The request as the handler reads it: \<open>request.method\<close> and \<open>request.files\<close>, a
  multi-dictionary kept as the list of its (field name, upload) pairs, looked up by the
  first pair with the name. An upload has \<open>filename\<close> and the bytes that \<open>read()\<close>
  returns; it is truthy exactly when its filename is not empty.

  The handler returns its response (or raises) together with the trace of what it did
  besides: the \<open>print\<close> of line 77, the \<open>read\<close> of the upload, and the call of
  \<open>analyze_image\<close> with the decoded image (\<open>None\<close> when the bytes are no image, on which
  the first OpenCV call raises).
\<close>

record request =
  request_method :: string
  files :: "(string \<times> file_storage) list"

datatype keyword = Kw_error string | Kw_result analysis

datatype response = render_template string "keyword list"

datatype event =
  print_files "(string \<times> file_storage) list"
| file_read file_storage
| analyze_image_call "color_image option"

definition index :: "cv2 \<Rightarrow> request \<Rightarrow> (error + response) \<times> event list" where
  "index cv request =
     (if request_method request = ''POST'' then
        (let trace = [print_files (files request)]
         in case map_of (files request) ''file'' of
              None \<Rightarrow> (Inr (render_template ''index.html'' [Kw_error ''No file part'']), trace)
            | Some file \<Rightarrow>
                if filename file = []
                then (Inr (render_template ''index.html'' [Kw_error ''No selected file'']), trace)
                else
                  (case (if filename file \<noteq> [] then allowed_file (filename file) else Inr False) of
                     Inl e \<Rightarrow> (Inl e, trace)
                   | Inr False \<Rightarrow> (Inr (render_template ''index.html'' []), trace)
                   | Inr True \<Rightarrow>
                       (let image_stream = stream file;
                            trace = trace @ [file_read file]
                        in case imdecode_color cv image_stream of
                             Inl e \<Rightarrow> (Inl e, trace)
                           | Inr decoded \<Rightarrow>
                               (let trace = trace @ [analyze_image_call decoded]
                                in case decoded of
                                     None \<Rightarrow> (Inl Cv2Error, trace)
                                   | Some img \<Rightarrow>
                                       (case analyze_image cv img of
                                          Inl e \<Rightarrow> (Inl e, trace)
                                        | Inr analysis_result \<Rightarrow>
                                            (Inr (render_template ''result.html''
                                                    [Kw_result analysis_result]),
                                             trace))))))
      else (Inr (render_template ''index.html'' []), []))"

subsection \<open>The plate filter as the specification words it\<close>

text \<open>
  The rectangle of a contour as the result dictionary holds it, its aspect ratio \<open>w/h\<close>,
  and the specification's test: \<open>2 < w/h < 5\<close> and \<open>100 < area < 5000\<close>.
\<close>

definition rect_of :: "contour \<Rightarrow> rect" where
  "rect_of cnt =
     (case boundingRect cnt of
        (x, y, w, h) \<Rightarrow> \<lparr>rect_x = x, rect_y = y, rect_w = w, rect_h = h\<rparr>)"

definition aspect_of :: "contour \<Rightarrow> rat" where
  "aspect_of cnt = of_int (rect_w (rect_of cnt)) / of_int (rect_h (rect_of cnt))"

definition plate_like :: "contour \<Rightarrow> bool" where
  "plate_like cnt \<longleftrightarrow>
     2 < aspect_of cnt \<and> aspect_of cnt < 5 \<and> 100 < contourArea cnt \<and> contourArea cnt < 5000"

subsection \<open>Sample inputs\<close>

text \<open>
  Concrete inputs at which the theorems below are evaluated. \<open>sample_cv2\<close> is a small
  stand-in for the library: it reads the three channels as H, S, V as they are and reports
  a fixed list of contours (a 31 by 11 plate outline twice, a sliver of area 5 with a
  rectangle of the same size, two triangles of area 50 and 10000, and a square), wiping
  the buffer it was handed. The three requests are uploads with a disallowed extension,
  without a file field, and with an empty filename.
\<close>

definition sample_contours :: "contour list" where
  "sample_contours =
     [Contour (0, 0) [(30, 0), (30, 10), (0, 10)],
      Contour (100, 0) [(130, 10), (129, 10)],
      Contour (40, 0) [(60, 0), (40, 5)],
      Contour (0, 20) [(250, 20), (0, 100)],
      Contour (0, 0) [(20, 0), (20, 20), (0, 20)],
      Contour (0, 0) [(30, 0), (30, 10), (0, 10)]]"

definition sample_cv2 :: cv2 where
  "sample_cv2 =
     \<lparr>cvtColor_BGR2GRAY = map (map (\<lambda>(b, g, r). g)),
      GaussianBlur_5x5 = (\<lambda>src. src),
      cvtColor_BGR2HSV = (\<lambda>src. src),
      Canny_200_400 = (\<lambda>src. src),
      findContours_external = (\<lambda>edges. sample_contours),
      findContours_leaves = map (map (\<lambda>v. 0)),
      imdecode_color = (\<lambda>buf. Inr None)\<rparr>"


definition sample_image :: color_image where
  "sample_image = [[(175, 200, 200), (175, 200, 200), (120, 200, 200)]]"

definition gray_sample :: color_image where
  "gray_sample = [[(0, 0, 128), (0, 0, 128)], [(0, 0, 128), (0, 0, 128)]]"

definition sample_plate :: rect where
  "sample_plate = \<lparr>rect_x = 0, rect_y = 0, rect_w = 31, rect_h = 11\<rparr>"

definition photo_txt_upload :: request where
  "photo_txt_upload =
     \<lparr>request_method = ''POST'', files = [(''file'', \<lparr>filename = ''photo.txt'', stream = [80, 54]\<rparr>)]\<rparr>"

definition no_file_upload :: request where
  "no_file_upload = \<lparr>request_method = ''POST'', files = []\<rparr>"

definition empty_name_upload :: request where
  "empty_name_upload =
     \<lparr>request_method = ''POST'', files = [(''file'', \<lparr>filename = [], stream = []\<rparr>)]\<rparr>"

section \<open>Properties\<close>

subsection \<open>The extension check\<close>

lemma rfind_None: "rfind sep s = None \<longleftrightarrow> sep \<notin> set s"
  by (induction s) (auto split: option.splits)

lemma rfind_Some_drop:
  "rfind sep s = Some i \<Longrightarrow>
     i < length s \<and> drop (Suc i) s = rev (takeWhile (\<lambda>c. c \<noteq> sep) (rev s))"
proof (induction s arbitrary: i)
  case Nil
  then show ?case by simp
next
  case (Cons c cs)
  show ?case
  proof (cases "rfind sep cs")
    case None
    then have notin: "sep \<notin> set cs" by (simp add: rfind_None)
    from Cons.prems None have "c = sep" "i = 0" by (auto split: if_splits)
    moreover from notin have "takeWhile (\<lambda>c. c \<noteq> sep) (rev cs) = rev cs"
      by (auto simp: takeWhile_eq_all_conv)
    ultimately show ?thesis
      by (simp add: takeWhile_append)
  next
    case (Some j)
    with Cons.prems have i: "i = Suc j" by simp
    from Cons.IH [OF Some]
    have j: "j < length cs" and d: "drop (Suc j) cs = rev (takeWhile (\<lambda>c. c \<noteq> sep) (rev cs))"
      by simp_all
    from Some have "sep \<in> set cs" using rfind_None [of sep cs] by auto
    then have "\<exists>x \<in> set (rev cs). \<not> x \<noteq> sep" by auto
    then have "takeWhile (\<lambda>c. c \<noteq> sep) (rev cs @ [c]) = takeWhile (\<lambda>c. c \<noteq> sep) (rev cs)"
      by (simp add: takeWhile_append1)
    with i j d show ?thesis by simp
  qed
qed

lemma lower_char_dot: "lower_char c = CHR ''.'' \<longleftrightarrow> c = CHR ''.''"
proof -
  have "of_char (lower_char c) = (46::nat) \<longleftrightarrow> of_char c = (46::nat)"
    by (auto simp: lower_char_def Let_def)
  moreover have "of_char (CHR ''.'') = (46::nat)" by simp
  ultimately show ?thesis
    by (metis of_char_eq_iff)
qed

lemma lower_no_dot: "CHR ''.'' \<in> set (lower s) \<longleftrightarrow> CHR ''.'' \<in> set s"
proof -
  have "CHR ''.'' = lower_char c \<longleftrightarrow> c = CHR ''.''" for c
    using lower_char_dot [of c] by auto
  then have "CHR ''.'' \<in> set (map lower_char s) \<longleftrightarrow> CHR ''.'' \<in> set s"
    by (induction s) auto
  then show ?thesis by (simp only: lower_def)
qed

lemma lower_char_idem: "lower_char (lower_char c) = lower_char c"
proof -
  have "of_char c < (256::nat)" by simp
  then show ?thesis
    by (auto simp: lower_char_def Let_def)
qed

lemma after_last_dot_lower:
  "after_last_dot (lower s) = lower (after_last_dot s)"
proof -
  have "takeWhile (\<lambda>c. c \<noteq> CHR ''.'') (map lower_char xs)
          = map lower_char (takeWhile (\<lambda>c. c \<noteq> CHR ''.'') xs)" for xs
    by (induction xs) (auto simp: lower_char_dot)
  then show ?thesis
    by (simp add: after_last_dot_def lower_def rev_map)
qed

lemma allowed_file_eq: "allowed_file name = Inr (extension_accepted name)"
proof (cases "rfind CHR ''.'' name")
  case None
  then show ?thesis
    by (simp add: allowed_file_def extension_accepted_def rfind_None)
next
  case (Some i)
  then have "CHR ''.'' \<in> set name"
    using rfind_None [of "CHR ''.''" name] by auto
  moreover from rfind_Some_drop [OF Some]
  have "drop (Suc i) name = after_last_dot name"
    by (simp add: after_last_dot_def)
  ultimately show ?thesis using Some
    by (simp add: allowed_file_def extension_accepted_def rsplit1_def getitem_def
        lower_def ALLOWED_EXTENSIONS_def)
qed

text \<open>
  C9. \<open>allowed_file\<close> always returns (the index \<open>[1]\<close> is never out of range), and it accepts
  a name exactly when the name contains a dot and the text after its last dot,
  lowercased, is \<open>png\<close>, \<open>jpg\<close> or \<open>jpeg\<close>. A name without a dot is rejected, and two
  names that differ only in letter case get the same answer.
\<close>

theorem allowed_file_spec:
  "allowed_file name = Inr (extension_accepted name) \<and>
   (CHR ''.'' \<notin> set name \<longrightarrow> allowed_file name = Inr False) \<and>
   (lower other = lower name \<longrightarrow> allowed_file other = allowed_file name)"
proof (intro conjI impI)
  show "allowed_file name = Inr (extension_accepted name)"
    by (rule allowed_file_eq)
  show "allowed_file name = Inr False" if "CHR ''.'' \<notin> set name"
    using that by (simp add: allowed_file_def)
  show "allowed_file other = allowed_file name" if eq: "lower other = lower name"
  proof -
    have acc: "extension_accepted s = extension_accepted (lower s)" for s
    proof -
      have "map lower_char (after_last_dot (lower s)) = map lower_char (lower (after_last_dot s))"
        by (simp only: after_last_dot_lower)
      then have "map lower_char (after_last_dot (lower s)) = map lower_char (after_last_dot s)"
        by (simp add: lower_def lower_char_idem)
      then show ?thesis
        by (simp add: extension_accepted_def lower_no_dot)
    qed
    have "extension_accepted other = extension_accepted (lower other)" by (rule acc)
    also have "\<dots> = extension_accepted (lower name)" by (simp add: eq)
    also have "\<dots> = extension_accepted name" by (rule acc [symmetric])
    finally show ?thesis by (simp add: allowed_file_eq)
  qed
qed

theorem allowed_file_spec_witness:
  "allowed_file ''car.JPG'' = Inr True \<and>
   allowed_file ''archive.tar.png'' = Inr True \<and>
   allowed_file ''png'' = Inr False \<and>
   allowed_file ''photo.txt'' = Inr False \<and>
   allowed_file ''CAR.jpg'' = allowed_file ''car.JPG''"
proof -
  have a: "extension_accepted ''car.JPG''"
    by code_simp
  have b: "extension_accepted ''archive.tar.png''"
    by code_simp
  have c: "CHR ''.'' \<notin> set ''png''" by simp
  have d: "\<not> extension_accepted ''photo.txt''"
    by code_simp
  have e: "lower ''CAR.jpg'' = lower ''car.JPG''"
    by code_simp
  have 1: "allowed_file ''car.JPG'' = Inr True"
    using allowed_file_spec [of "''car.JPG''" "''CAR.jpg''"] a by simp
  have 2: "allowed_file ''archive.tar.png'' = Inr True"
    using allowed_file_spec [of "''archive.tar.png''" "''x''"] b by simp
  have 3: "allowed_file ''png'' = Inr False"
    using allowed_file_spec [of "''png''" "''x''"] c by blast
  have 4: "allowed_file ''photo.txt'' = Inr False"
    using allowed_file_spec [of "''photo.txt''" "''x''"] d by simp
  have 5: "allowed_file ''CAR.jpg'' = allowed_file ''car.JPG''"
    using allowed_file_spec [of "''car.JPG''" "''CAR.jpg''"] e by blast
  from 1 2 3 4 5 show ?thesis by blast
qed

subsection \<open>The contour loop\<close>

lemma fold_min_Min: "fold min xs (a::nat) = Min (set (a # xs))"
  by (simp only: Min.set_eq_fold)

lemma fold_max_Max: "fold max xs (a::nat) = Max (set (a # xs))"
  by (simp only: Max.set_eq_fold)

lemma boundingRect_facts:
  assumes "boundingRect cnt = (x, y, w, h)"
  shows "1 \<le> w" and "1 \<le> h" and "0 \<le> x" and "0 \<le> y"
    and "\<forall>p \<in> set (points cnt).
           x \<le> int (fst p) \<and> int (fst p) < x + w \<and> y \<le> int (snd p) \<and> int (snd p) < y + h"
    and "\<exists>p \<in> set (points cnt). int (fst p) = x"
    and "\<exists>p \<in> set (points cnt). int (fst p) = x + w - 1"
    and "\<exists>p \<in> set (points cnt). int (snd p) = y"
    and "\<exists>p \<in> set (points cnt). int (snd p) = y + h - 1"
proof -
  obtain p ps where c: "cnt = Contour p ps" by (cases cnt)
  let ?X = "set (fst p # map fst ps)" and ?Y = "set (snd p # map snd ps)"
  have fin: "finite ?X" "finite ?Y" "?X \<noteq> {}" "?Y \<noteq> {}" by simp_all
  from assms c have x: "x = int (Min ?X)" and y: "y = int (Min ?Y)"
    and w: "w = int (Max ?X) - int (Min ?X) + 1" and h: "h = int (Max ?Y) - int (Min ?Y) + 1"
    by (simp_all add: Let_def fold_min_Min fold_max_Max del: set_simps list.map)
  have XY: "?X = fst ` set (points cnt)" "?Y = snd ` set (points cnt)" by (simp_all add: c)
  have mn: "Min ?X \<in> ?X" "Min ?Y \<in> ?Y" using fin(1,3) fin(2,4) Min_in by blast+
  have mx: "Max ?X \<in> ?X" "Max ?Y \<in> ?Y" using fin(1,3) fin(2,4) Max_in by blast+
  have bdx: "Min ?X \<le> a \<and> a \<le> Max ?X" if "a \<in> ?X" for a
    using that fin(1) by (meson Min_le Max_ge)
  have bdy: "Min ?Y \<le> a \<and> a \<le> Max ?Y" if "a \<in> ?Y" for a
    using that fin(2) by (meson Min_le Max_ge)
  from bdx [OF mx(1)] show "1 \<le> w" by (simp add: w)
  from bdy [OF mx(2)] show "1 \<le> h" by (simp add: h)
  show "0 \<le> x" "0 \<le> y" by (simp_all add: x y)
  show "\<forall>q \<in> set (points cnt).
           x \<le> int (fst q) \<and> int (fst q) < x + w \<and> y \<le> int (snd q) \<and> int (snd q) < y + h"
  proof
    fix q assume "q \<in> set (points cnt)"
    then have "fst q \<in> ?X" "snd q \<in> ?Y" unfolding XY by simp_all
    from bdx [OF this(1)] bdy [OF this(2)]
    show "x \<le> int (fst q) \<and> int (fst q) < x + w \<and> y \<le> int (snd q) \<and> int (snd q) < y + h"
      by (simp add: x y w h)
  qed
  from mn(1) obtain q where "q \<in> set (points cnt)" "fst q = Min ?X" unfolding XY by force
  then show "\<exists>p \<in> set (points cnt). int (fst p) = x" unfolding x by force
  from mn(2) obtain q where "q \<in> set (points cnt)" "snd q = Min ?Y" unfolding XY by force
  then show "\<exists>p \<in> set (points cnt). int (snd p) = y" unfolding y by force
  have "x + w - 1 = int (Max ?X)" "y + h - 1 = int (Max ?Y)" by (simp_all add: x y w h)
  moreover from mx(1) obtain q where "q \<in> set (points cnt)" "fst q = Max ?X"
    unfolding XY by force
  moreover from mx(2) obtain q' where "q' \<in> set (points cnt)" "snd q' = Max ?Y"
    unfolding XY by force
  ultimately show "\<exists>p \<in> set (points cnt). int (fst p) = x + w - 1"
    and "\<exists>p \<in> set (points cnt). int (snd p) = y + h - 1"
    by force+
qed

lemma rect_of_boundingRect:
  "boundingRect cnt = (rect_x (rect_of cnt), rect_y (rect_of cnt), rect_w (rect_of cnt),
     rect_h (rect_of cnt))"
  by (cases "boundingRect cnt") (simp add: rect_of_def)

lemmas rect_of_facts = boundingRect_facts [OF rect_of_boundingRect]

lemma plate_test_contour:
  "boundingRect cnt = (x, y, w, h) \<Longrightarrow> plate_test w h (contourArea cnt) = Inr (plate_like cnt)"
  using boundingRect_facts(2) [of cnt x y w h]
  by (simp add: plate_test_def truediv_def plate_like_def aspect_of_def rect_of_def)

lemma loop_step:
  "number_plates_loop (c # cs) acc =
     (if plate_like c then number_plates_loop cs (acc @ [rect_of c])
      else number_plates_loop cs acc)"
  by (cases "boundingRect c") (simp add: plate_test_contour rect_of_def)

lemma loop_eq:
  "number_plates_loop cnts acc = Inr (acc @ map rect_of (filter plate_like cnts))"
proof (induction cnts arbitrary: acc)
  case Nil
  then show ?case by simp
next
  case (Cons c cs)
  then show ?case by (simp add: loop_step del: number_plates_loop.simps(2))
qed

lemma analyze_image_eq:
  "analyze_image cv img =
     (if concat img = [] then Inl Cv2Error
      else Inr \<lparr>color = dominant_color (red_count (cvtColor_BGR2HSV cv img))
                          (blue_count (cvtColor_BGR2HSV cv img))
                          (green_count (cvtColor_BGR2HSV cv img)),
                number_plates = map rect_of (filter plate_like (cnts_of cv img))\<rparr>)"
  by (simp add: analyze_image_def cvtColor_def cnts_of_def Let_def loop_eq)

lemma analyze_image_Inr:
  assumes "analyze_image cv img = Inr res"
  shows "concat img \<noteq> []"
    and "color res = dominant_color (red_count (cvtColor_BGR2HSV cv img))
                   (blue_count (cvtColor_BGR2HSV cv img)) (green_count (cvtColor_BGR2HSV cv img))"
    and "number_plates res = map rect_of (filter plate_like (cnts_of cv img))"
    and "number_plates_loop (cnts_of cv img) [] = Inr (number_plates res)"
  using assms by (auto simp: analyze_image_eq loop_eq split: if_splits)

lemma analyze_image_no_pixels:
  "concat img = [] \<Longrightarrow> analyze_image cv img = Inl Cv2Error"
  "analyze_image cv [] = Inl Cv2Error"
  "analyze_image cv [[], []] = Inl Cv2Error"
  by (simp_all add: analyze_image_eq)

lemma sample_counts:
  "red_count sample_image = 2" "blue_count sample_image = 1" "green_count sample_image = 0"
  "red_count gray_sample = 0" "blue_count gray_sample = 0" "green_count gray_sample = 0"
  by (simp_all add: red_count_def blue_count_def green_count_def countNonZero_def inRange_def
      in_bounds_def red_lower_def red_upper_def blue_lower_def blue_upper_def green_lower_def
      green_upper_def sample_image_def gray_sample_def)

lemma sample_rects:
  "map rect_of sample_contours =
     [sample_plate,
      \<lparr>rect_x = 100, rect_y = 0, rect_w = 31, rect_h = 11\<rparr>,
      \<lparr>rect_x = 40, rect_y = 0, rect_w = 21, rect_h = 6\<rparr>,
      \<lparr>rect_x = 0, rect_y = 20, rect_w = 251, rect_h = 81\<rparr>,
      \<lparr>rect_x = 0, rect_y = 0, rect_w = 21, rect_h = 21\<rparr>,
      sample_plate]"
  by (simp add: sample_contours_def rect_of_def sample_plate_def)

lemma sample_areas: "map contourArea sample_contours = [300, 5, 50, 10000, 400, 300]"
  by (simp add: sample_contours_def contourArea_def)

lemma sample_plate_like:
  "map plate_like sample_contours = [True, False, False, False, False, True]"
  using sample_rects sample_areas
  by (simp add: sample_contours_def plate_like_def aspect_of_def sample_plate_def)

lemma sample_loop: "number_plates_loop sample_contours [] = Inr [sample_plate, sample_plate]"
  using sample_rects sample_plate_like by (simp add: loop_eq sample_contours_def)

lemma sample_cnts: "cnts_of sample_cv2 img = sample_contours"
  by (simp add: cnts_of_def sample_cv2_def)

lemma sample_run:
  "analyze_image sample_cv2 sample_image =
     Inr \<lparr>color = Some ''Red'', number_plates = [sample_plate, sample_plate]\<rparr>"
  "analyze_image sample_cv2 gray_sample =
     Inr \<lparr>color = None, number_plates = [sample_plate, sample_plate]\<rparr>"
proof -
  have l: "map rect_of (filter plate_like sample_contours) = [sample_plate, sample_plate]"
    using sample_loop by (simp add: loop_eq)
  have c: "cvtColor_BGR2HSV sample_cv2 = (\<lambda>src. src)" by (simp add: sample_cv2_def)
  have n: "concat sample_image \<noteq> []" "concat gray_sample \<noteq> []"
    by (simp_all add: sample_image_def gray_sample_def)
  show "analyze_image sample_cv2 sample_image =
     Inr \<lparr>color = Some ''Red'', number_plates = [sample_plate, sample_plate]\<rparr>"
    using n(1) by (simp add: analyze_image_eq sample_cnts l c sample_counts dominant_color_def)
  show "analyze_image sample_cv2 gray_sample =
     Inr \<lparr>color = None, number_plates = [sample_plate, sample_plate]\<rparr>"
    using n(2) by (simp add: analyze_image_eq sample_cnts l c sample_counts dominant_color_def)
qed

subsection \<open>The dominant colour\<close>

text \<open>
  C1. Whenever \<open>analyze_image\<close> returns, its colour label is \<open>'Red'\<close> exactly when the
  red count strictly exceeds the blue and the green count, and likewise for \<open>'Blue'\<close> and
  \<open>'Green'\<close>; it is \<open>None\<close> exactly when no count strictly exceeds both others, which
  covers ties and three zero counts. An image whose HSV pixels all have a saturation below
  50, such as a uniform grey one, has three zero counts and the label \<open>None\<close>.
\<close>

theorem analyze_image_color:
  assumes "analyze_image cv img = Inr res"
  shows "let hsv = cvtColor_BGR2HSV cv img;
             r = red_count hsv; b = blue_count hsv; g = green_count hsv
         in (color res = Some ''Red'' \<longleftrightarrow> b < r \<and> g < r) \<and>
            (color res = Some ''Blue'' \<longleftrightarrow> r < b \<and> g < b) \<and>
            (color res = Some ''Green'' \<longleftrightarrow> r < g \<and> b < g) \<and>
            (color res = None \<longleftrightarrow> \<not> (b < r \<and> g < r) \<and> \<not> (r < b \<and> g < b) \<and> \<not> (r < g \<and> b < g)) \<and>
            (r = 0 \<and> b = 0 \<and> g = 0 \<longrightarrow> color res = None) \<and>
            ((\<forall>row \<in> set hsv. \<forall>(h, s, v) \<in> set row. uint s < 50) \<longrightarrow> color res = None)"
proof -
  let ?hsv = "cvtColor_BGR2HSV cv img"
  have c: "color res = dominant_color (red_count ?hsv) (blue_count ?hsv) (green_count ?hsv)"
    using analyze_image_Inr [OF assms] by simp
  have zero: "red_count ?hsv = 0 \<and> blue_count ?hsv = 0 \<and> green_count ?hsv = 0"
    if "\<forall>row \<in> set ?hsv. \<forall>(h, s, v) \<in> set row. uint s < 50"
  proof -
    have "\<not> in_bounds lo up px"
      if "px \<in> set row" "row \<in> set ?hsv" "lo \<in> {red_lower, blue_lower, green_lower}" for lo up px row
    proof -
      obtain h s v where px: "px = (h, s, v)" by (cases px)
      from that(1,2) \<open>\<forall>row \<in> set ?hsv. \<forall>(h, s, v) \<in> set row. uint s < 50\<close> px
      have "uint s < 50" by fastforce
      with that(3) px show ?thesis
        by (auto simp: in_bounds_def red_lower_def blue_lower_def green_lower_def
            split: prod.splits)
    qed
    then show ?thesis
      by (auto simp: red_count_def blue_count_def green_count_def countNonZero_def inRange_def
          filter_empty_conv)
  qed
  show ?thesis
    unfolding Let_def c using zero
    by (auto simp: dominant_color_def)
qed

theorem analyze_image_color_witness:
  "analyze_image sample_cv2 sample_image
     = Inr \<lparr>color = Some ''Red'', number_plates = [sample_plate, sample_plate]\<rparr> \<and>
   blue_count sample_image < red_count sample_image \<and>
   green_count sample_image < red_count sample_image \<and>
   analyze_image sample_cv2 gray_sample
     = Inr \<lparr>color = None, number_plates = [sample_plate, sample_plate]\<rparr> \<and>
   red_count gray_sample = 0 \<and> blue_count gray_sample = 0 \<and> green_count gray_sample = 0"
  using analyze_image_color [OF sample_run(1)] analyze_image_color [OF sample_run(2)]
    sample_run sample_counts
  by (simp add: Let_def sample_cv2_def)

subsection \<open>The plate candidates\<close>

text \<open>
  C2. Whenever \<open>analyze_image\<close> returns, its candidate list is the list of contours found
  in the edge map, in the order found, reduced to those with \<open>2 < w/h < 5\<close> and
  \<open>100 < area < 5000\<close>, each replaced by its upright bounding rectangle; the area tested
  is the contour's enclosed area, not \<open>w * h\<close>. So each contour, at its place in the
  order, gives its rectangle to the list exactly when it passes both tests; a rectangle is
  in the list exactly when it is the bounding rectangle of a contour that passes; and
  nothing is removed as a duplicate or for overlapping another, contours with one
  bounding rectangle giving it once for each of them that passes.
\<close>

theorem analyze_image_number_plates:
  assumes "analyze_image cv img = Inr res"
  shows "number_plates res = map rect_of (filter plate_like (cnts_of cv img)) \<and>
         (\<forall>pre c post.
            cnts_of cv img = pre @ c # post \<longrightarrow>
            number_plates res =
              map rect_of (filter plate_like pre) @
              (if plate_like c then [rect_of c] else []) @
              map rect_of (filter plate_like post)) \<and>
         (\<forall>r. r \<in> set (number_plates res) \<longleftrightarrow>
              (\<exists>c \<in> set (cnts_of cv img). rect_of c = r \<and> plate_like c))"
proof (intro conjI allI impI)
  note np = analyze_image_Inr(3) [OF assms]
  show "number_plates res = map rect_of (filter plate_like (cnts_of cv img))" by (rule np)
  show "number_plates res =
          map rect_of (filter plate_like pre) @
          (if plate_like c then [rect_of c] else []) @
          map rect_of (filter plate_like post)"
    if "cnts_of cv img = pre @ c # post" for pre c post
    using that by (simp add: np)
  show "r \<in> set (number_plates res) \<longleftrightarrow>
          (\<exists>c \<in> set (cnts_of cv img). rect_of c = r \<and> plate_like c)" for r
    by (auto simp: np)
qed

theorem analyze_image_number_plates_witness:
  "analyze_image sample_cv2 sample_image
     = Inr \<lparr>color = Some ''Red'', number_plates = [sample_plate, sample_plate]\<rparr> \<and>
   map rect_of (filter plate_like (cnts_of sample_cv2 sample_image))
     = [sample_plate, sample_plate] \<and>
   map plate_like (cnts_of sample_cv2 sample_image) = [True, False, False, False, False, True] \<and>
   rect_of (cnts_of sample_cv2 sample_image ! 1)
     = \<lparr>rect_x = 100, rect_y = 0, rect_w = 31, rect_h = 11\<rparr> \<and>
   contourArea (cnts_of sample_cv2 sample_image ! 1) = 5 \<and>
   (31::int) * 11 = 341 \<and>
   rect_of (cnts_of sample_cv2 sample_image ! 1) \<notin> set [sample_plate, sample_plate] \<and>
   rect_of (cnts_of sample_cv2 sample_image ! 0) \<in> set [sample_plate, sample_plate] \<and>
   rect_of (cnts_of sample_cv2 sample_image ! 0) = rect_of (cnts_of sample_cv2 sample_image ! 5)"
proof -
  let ?res = "\<lparr>color = Some ''Red'', number_plates = [sample_plate, sample_plate]\<rparr>"
  from analyze_image_number_plates [OF sample_run(1)]
  have "number_plates ?res = map rect_of (filter plate_like (cnts_of sample_cv2 sample_image))"
    by blast
  then have "map rect_of (filter plate_like (cnts_of sample_cv2 sample_image))
          = [sample_plate, sample_plate]"
    by simp
  moreover have "rect_of (cnts_of sample_cv2 sample_image ! 1)
     = \<lparr>rect_x = 100, rect_y = 0, rect_w = 31, rect_h = 11\<rparr>"
    "rect_of (cnts_of sample_cv2 sample_image ! 0) = sample_plate"
    "rect_of (cnts_of sample_cv2 sample_image ! 5) = sample_plate"
    using sample_rects by (simp_all add: sample_cnts sample_contours_def)
  moreover have "contourArea (cnts_of sample_cv2 sample_image ! 1) = 5"
    using sample_areas by (simp add: sample_cnts sample_contours_def)
  ultimately show ?thesis
    using sample_run(1) sample_plate_like by (simp add: sample_cnts sample_plate_def)
qed



lemma plate_in_result:
  assumes "analyze_image cv img = Inr res" and "r \<in> set (number_plates res)"
  obtains c where "c \<in> set (cnts_of cv img)" "r = rect_of c" "plate_like c"
  using assms analyze_image_Inr(3) [OF assms(1)] by auto

text \<open>
  C7. No rectangle in the returned candidate list is a square: its aspect ratio \<open>w/h\<close> is
  never 1, whatever the area of its contour.
\<close>

theorem no_square_plates:
  assumes "analyze_image cv img = Inr res"
  shows "\<forall>r \<in> set (number_plates res).
           (of_int (rect_w r) / of_int (rect_h r) :: rat) \<noteq> 1 \<and> rect_w r \<noteq> rect_h r"
proof
  fix r assume "r \<in> set (number_plates res)"
  with assms obtain c where c: "r = rect_of c" "plate_like c"
    by (rule plate_in_result)
  from c(1,2) have a: "2 < (of_int (rect_w r) / of_int (rect_h r) :: rat)"
    by (simp add: plate_like_def aspect_of_def)
  from c(1) have "rect_h r \<noteq> 0" using rect_of_facts(2) [of c] by simp
  with a show "(of_int (rect_w r) / of_int (rect_h r) :: rat) \<noteq> 1 \<and> rect_w r \<noteq> rect_h r"
    by auto
qed

theorem no_square_plates_witness:
  "analyze_image sample_cv2 sample_image
     = Inr \<lparr>color = Some ''Red'', number_plates = [sample_plate, sample_plate]\<rparr> \<and>
   rect_of (cnts_of sample_cv2 sample_image ! 4) = \<lparr>rect_x = 0, rect_y = 0, rect_w = 21, rect_h = 21\<rparr> \<and>
   contourArea (cnts_of sample_cv2 sample_image ! 4) = 400 \<and>
   rect_w sample_plate \<noteq> rect_h sample_plate \<and>
   (of_int (rect_w sample_plate) / of_int (rect_h sample_plate) :: rat) \<noteq> 1"
proof -
  have "rect_of (cnts_of sample_cv2 sample_image ! 4)
          = \<lparr>rect_x = 0, rect_y = 0, rect_w = 21, rect_h = 21\<rparr>"
    using sample_rects by (simp add: sample_cnts sample_contours_def)
  moreover have "contourArea (cnts_of sample_cv2 sample_image ! 4) = 400"
    using sample_areas by (simp add: sample_cnts sample_contours_def)
  ultimately show ?thesis
    using no_square_plates [OF sample_run(1)] sample_run(1) by simp
qed

lemma loop_purge:
  assumes "\<And>c. c \<in> set cnts \<Longrightarrow> \<not> P c \<Longrightarrow> \<not> plate_like c"
  shows "number_plates_loop (filter P cnts) acc = number_plates_loop cnts acc"
proof -
  have "filter plate_like (filter P cnts) = filter plate_like cnts"
    using assms by (auto simp: filter_filter intro: filter_cong)
  then show ?thesis by (simp add: loop_eq)
qed

text \<open>
  C8. A contour whose enclosed area is exactly 50 or exactly 10000 never contributes a
  rectangle, whatever its aspect ratio: the loop run on such a contour alone appends
  nothing, and the returned list is the one the loop builds after all such contours are
  taken out of its input.
\<close>

theorem area_50_and_10000_excluded:
  assumes "analyze_image cv img = Inr res"
  shows "number_plates_loop
           (filter (\<lambda>c. contourArea c \<noteq> 50 \<and> contourArea c \<noteq> 10000) (cnts_of cv img)) []
           = Inr (number_plates res) \<and>
         (\<forall>c \<in> set (cnts_of cv img).
            contourArea c = 50 \<or> contourArea c = 10000 \<longrightarrow> number_plates_loop [c] [] = Inr [])"
proof
  note l = analyze_image_Inr(4) [OF assms]
  have np: "\<not> plate_like c" if "contourArea c = 50 \<or> contourArea c = 10000" for c
    using that by (auto simp: plate_like_def)
  have "number_plates_loop
           (filter (\<lambda>c. contourArea c \<noteq> 50 \<and> contourArea c \<noteq> 10000) (cnts_of cv img)) []
           = number_plates_loop (cnts_of cv img) []"
    by (rule loop_purge) (use np in auto)
  with l show "number_plates_loop
           (filter (\<lambda>c. contourArea c \<noteq> 50 \<and> contourArea c \<noteq> 10000) (cnts_of cv img)) []
           = Inr (number_plates res)"
    by simp
  show "\<forall>c \<in> set (cnts_of cv img).
            contourArea c = 50 \<or> contourArea c = 10000 \<longrightarrow> number_plates_loop [c] [] = Inr []"
    using np by (simp add: loop_eq)
qed

theorem area_50_and_10000_excluded_witness:
  "analyze_image sample_cv2 sample_image
     = Inr \<lparr>color = Some ''Red'', number_plates = [sample_plate, sample_plate]\<rparr> \<and>
   contourArea (cnts_of sample_cv2 sample_image ! 2) = 50 \<and>
   aspect_of (cnts_of sample_cv2 sample_image ! 2) = 7 / 2 \<and>
   number_plates_loop [cnts_of sample_cv2 sample_image ! 2] [] = Inr [] \<and>
   contourArea (cnts_of sample_cv2 sample_image ! 3) = 10000 \<and>
   aspect_of (cnts_of sample_cv2 sample_image ! 3) = 251 / 81 \<and>
   number_plates_loop [cnts_of sample_cv2 sample_image ! 3] [] = Inr [] \<and>
   number_plates_loop
     (filter (\<lambda>c. contourArea c \<noteq> 50 \<and> contourArea c \<noteq> 10000) (cnts_of sample_cv2 sample_image)) []
     = Inr [sample_plate, sample_plate]"
proof -
  have a: "contourArea (cnts_of sample_cv2 sample_image ! 2) = 50"
    "contourArea (cnts_of sample_cv2 sample_image ! 3) = 10000"
    using sample_areas by (simp_all add: sample_cnts sample_contours_def)
  have r: "aspect_of (cnts_of sample_cv2 sample_image ! 2) = 7 / 2"
    "aspect_of (cnts_of sample_cv2 sample_image ! 3) = 251 / 81"
    using sample_rects by (simp_all add: sample_cnts sample_contours_def aspect_of_def)
  have m: "cnts_of sample_cv2 sample_image ! 2 \<in> set (cnts_of sample_cv2 sample_image)"
    "cnts_of sample_cv2 sample_image ! 3 \<in> set (cnts_of sample_cv2 sample_image)"
    by (simp_all add: sample_cnts sample_contours_def)
  from area_50_and_10000_excluded [OF sample_run(1)] a m r sample_run(1)
  show ?thesis by simp
qed



subsection \<open>The caller's image\<close>

lemma heap_run:
  assumes "img < length hp" and "hp ! img = Mat3 src" and "concat src \<noteq> []"
  shows "analyze_image_heap cv img hp =
     (analyze_image cv src,
      hp @ [Mat1 (cvtColor_BGR2GRAY cv src),
            Mat1 (GaussianBlur_5x5 cv (cvtColor_BGR2GRAY cv src)),
            Mat3 (cvtColor_BGR2HSV cv src),
            Mat1 (inRange (cvtColor_BGR2HSV cv src) red_lower red_upper),
            Mat1 (inRange (cvtColor_BGR2HSV cv src) blue_lower blue_upper),
            Mat1 (inRange (cvtColor_BGR2HSV cv src) green_lower green_upper),
            Mat1 (Canny_200_400 cv (GaussianBlur_5x5 cv (cvtColor_BGR2GRAY cv src))),
            Mat1 (findContours_leaves cv
                    (Canny_200_400 cv (GaussianBlur_5x5 cv (cvtColor_BGR2GRAY cv src))))])"
  using assms
  by (simp add: analyze_image_heap_def and_then_def cvtColor_at_def cvtColor_def from_color_def
      from_gray_def new_array_def countNonZero_at_def findContours_at_def nth_append
      list_update_append analyze_image_def red_count_def blue_count_def green_count_def Let_def)

lemma heap_no_pixels:
  assumes "hp ! img = Mat3 src" and "concat src = []"
  shows "analyze_image_heap cv img hp = (analyze_image cv src, hp)"
  using assms
  by (simp add: analyze_image_heap_def and_then_def cvtColor_at_def cvtColor_def
      analyze_image_def)

lemma heap_wrong_channels:
  assumes "hp ! img = Mat1 src"
  shows "analyze_image_heap cv img hp = (Inl Cv2Error, hp)"
  using assms
  by (simp add: analyze_image_heap_def and_then_def cvtColor_at_def)

text \<open>
  C6. \<open>analyze_image\<close> never writes to the caller's image: after the call the heap is the
  heap before it followed by new arrays, so the input array and every other array that
  existed hold what they held. The grey image, the blurred image, the HSV image, the three
  masks and the edge map are new arrays, and the one array that \<open>findContours\<close> may write
  to is the copy of the edge map made for it. Its result is that of \<open>analyze_image\<close> on
  the image's content; on an image without pixels it raises before any array is made.
\<close>

theorem analyze_image_keeps_input:
  assumes "img < length hp"
  shows "\<exists>fresh.
           snd (analyze_image_heap cv img hp) = hp @ fresh \<and>
           snd (analyze_image_heap cv img hp) ! img = hp ! img \<and>
           (\<forall>i < length hp. snd (analyze_image_heap cv img hp) ! i = hp ! i) \<and>
           (\<forall>src. hp ! img = Mat3 src \<longrightarrow>
              fst (analyze_image_heap cv img hp) = analyze_image cv src \<and>
              fresh =
                (if concat src = [] then []
                 else
                   [Mat1 (cvtColor_BGR2GRAY cv src),
                    Mat1 (GaussianBlur_5x5 cv (cvtColor_BGR2GRAY cv src)),
                    Mat3 (cvtColor_BGR2HSV cv src),
                    Mat1 (inRange (cvtColor_BGR2HSV cv src) red_lower red_upper),
                    Mat1 (inRange (cvtColor_BGR2HSV cv src) blue_lower blue_upper),
                    Mat1 (inRange (cvtColor_BGR2HSV cv src) green_lower green_upper),
                    Mat1 (Canny_200_400 cv (GaussianBlur_5x5 cv (cvtColor_BGR2GRAY cv src))),
                    Mat1 (findContours_leaves cv
                            (Canny_200_400 cv
                               (GaussianBlur_5x5 cv (cvtColor_BGR2GRAY cv src))))]))"
proof (cases "hp ! img")
  case (Mat3 src)
  show ?thesis
  proof (cases "concat src = []")
    case True
    from heap_no_pixels [OF Mat3 True, of cv] Mat3 True show ?thesis by simp
  next
    case False
    from heap_run [OF assms Mat3 False, of cv] assms Mat3 False show ?thesis
      by (simp add: nth_append)
  qed
next
  case (Mat1 src)
  from heap_wrong_channels [OF Mat1, of cv] Mat1 show ?thesis
    by simp
qed

theorem analyze_image_keeps_input_witness:
  "(0::nat) < length [Mat3 sample_image] \<and>
   analyze_image_heap sample_cv2 0 [Mat3 sample_image] =
     (Inr \<lparr>color = Some ''Red'', number_plates = [sample_plate, sample_plate]\<rparr>,
      [Mat3 sample_image,
       Mat1 [[200, 200, 200]], Mat1 [[200, 200, 200]], Mat3 sample_image,
       Mat1 [[255, 255, 0]], Mat1 [[0, 0, 255]], Mat1 [[0, 0, 0]],
       Mat1 [[200, 200, 200]], Mat1 [[0, 0, 0]]]) \<and>
   snd (analyze_image_heap sample_cv2 0 [Mat3 sample_image]) ! 0 = Mat3 sample_image"
proof -
  have l: "(0::nat) < length [Mat3 sample_image]" by simp
  have n: "concat sample_image \<noteq> []" by (simp add: sample_image_def)
  from analyze_image_keeps_input [OF l, of sample_cv2]
  obtain fresh where f: "snd (analyze_image_heap sample_cv2 0 [Mat3 sample_image])
       = [Mat3 sample_image] @ fresh"
    and k: "snd (analyze_image_heap sample_cv2 0 [Mat3 sample_image]) ! 0 = [Mat3 sample_image] ! 0"
    and r: "fst (analyze_image_heap sample_cv2 0 [Mat3 sample_image])
       = analyze_image sample_cv2 sample_image"
    and fr: "fresh =
                [Mat1 (cvtColor_BGR2GRAY sample_cv2 sample_image),
                 Mat1 (GaussianBlur_5x5 sample_cv2 (cvtColor_BGR2GRAY sample_cv2 sample_image)),
                 Mat3 (cvtColor_BGR2HSV sample_cv2 sample_image),
                 Mat1 (inRange (cvtColor_BGR2HSV sample_cv2 sample_image) red_lower red_upper),
                 Mat1 (inRange (cvtColor_BGR2HSV sample_cv2 sample_image) blue_lower blue_upper),
                 Mat1 (inRange (cvtColor_BGR2HSV sample_cv2 sample_image) green_lower green_upper),
                 Mat1 (Canny_200_400 sample_cv2 (GaussianBlur_5x5 sample_cv2 (cvtColor_BGR2GRAY sample_cv2 sample_image))),
                 Mat1 (findContours_leaves sample_cv2
                         (Canny_200_400 sample_cv2 (GaussianBlur_5x5 sample_cv2 (cvtColor_BGR2GRAY sample_cv2 sample_image))))]"
    using n by auto
  have fresh: "fresh = [Mat1 [[200, 200, 200]], Mat1 [[200, 200, 200]], Mat3 sample_image,
       Mat1 [[255, 255, 0]], Mat1 [[0, 0, 255]], Mat1 [[0, 0, 0]],
       Mat1 [[200, 200, 200]], Mat1 [[0, 0, 0]]]"
    unfolding fr
    by (simp add: sample_cv2_def sample_image_def inRange_def in_bounds_def red_lower_def
        red_upper_def blue_lower_def blue_upper_def green_lower_def green_upper_def)
  have "analyze_image_heap sample_cv2 0 [Mat3 sample_image]
          = (fst (analyze_image_heap sample_cv2 0 [Mat3 sample_image]),
             snd (analyze_image_heap sample_cv2 0 [Mat3 sample_image]))" by simp
  also have "\<dots> = (Inr \<lparr>color = Some ''Red'', number_plates = [sample_plate, sample_plate]\<rparr>,
      [Mat3 sample_image] @ fresh)"
    by (simp only: r f sample_run(1))
  finally show ?thesis using l k fresh by simp
qed

subsection \<open>The request handler\<close>

text \<open>
  C3. An upload named \<open>photo.txt\<close> is not analysed, but no error is shown for it either:
  the handler falls through to the plain form, rendered without an \<open>error\<close> argument, as
  for a GET request.
\<close>

theorem disallowed_extension_renders_form:
  "allowed_file ''photo.txt'' = Inr False \<and>
   index sample_cv2 photo_txt_upload
     = (Inr (render_template ''index.html'' []), [print_files (files photo_txt_upload)])"
proof -
  have a: "allowed_file ''photo.txt'' = Inr False"
    by (simp add: allowed_file_eq) code_simp
  then show ?thesis
    by (simp add: index_def photo_txt_upload_def)
qed

text \<open>
  C5, as stated, fails in its last part: the handler prints \<open>request.files\<close> to standard
  output on every POST, before any check, so the two error paths are not free of effects
  on the server.
\<close>

theorem upload_errors_counterexample:
  "snd (index sample_cv2 no_file_upload) = [print_files []] \<and>
   snd (index sample_cv2 no_file_upload) \<noteq> [] \<and>
   snd (index sample_cv2 empty_name_upload) \<noteq> []"
  by (simp add: index_def no_file_upload_def empty_name_upload_def)

text \<open>
  C5, amended. A POST without a \<open>file\<close> field is answered with the form and the error
  \<open>No file part\<close>, a POST whose file has an empty filename with the form and the error
  \<open>No selected file\<close>. In both cases the upload is not read, nothing is analysed, and the
  only thing the handler does besides rendering is to print \<open>request.files\<close>.
\<close>

theorem upload_errors:
  assumes "request_method request = ''POST''"
  shows "(map_of (files request) ''file'' = None \<longrightarrow>
            index cv request
              = (Inr (render_template ''index.html'' [Kw_error ''No file part'']),
                 [print_files (files request)])) \<and>
         (\<forall>file. map_of (files request) ''file'' = Some file \<and> filename file = [] \<longrightarrow>
            index cv request
              = (Inr (render_template ''index.html'' [Kw_error ''No selected file'']),
                 [print_files (files request)]))"
  using assms by (simp add: index_def)

theorem upload_errors_witness:
  "request_method no_file_upload = ''POST'' \<and> map_of (files no_file_upload) ''file'' = None \<and>
   index sample_cv2 no_file_upload
     = (Inr (render_template ''index.html'' [Kw_error ''No file part'']), [print_files []]) \<and>
   request_method empty_name_upload = ''POST'' \<and>
   map_of (files empty_name_upload) ''file'' = Some \<lparr>filename = [], stream = []\<rparr> \<and>
   index sample_cv2 empty_name_upload
     = (Inr (render_template ''index.html'' [Kw_error ''No selected file'']),
        [print_files [(''file'', \<lparr>filename = [], stream = []\<rparr>)]])"
proof -
  have m: "request_method no_file_upload = ''POST''" "request_method empty_name_upload = ''POST''"
    by (simp_all add: no_file_upload_def empty_name_upload_def)
  have f: "map_of (files no_file_upload) ''file'' = None"
    "map_of (files empty_name_upload) ''file'' = Some \<lparr>filename = [], stream = []\<rparr>"
    "files no_file_upload = []"
    "files empty_name_upload = [(''file'', \<lparr>filename = [], stream = []\<rparr>)]"
    by (simp_all add: no_file_upload_def empty_name_upload_def)
  from upload_errors [OF m(1), of sample_cv2] upload_errors [OF m(2), of sample_cv2] m f
  show ?thesis by simp
qed

end
